theory Spec2Isabelle
  imports Main "HOL-Library.AList"
begin

section \<open>The moderation and access-control store of the relay (database.go)\<close>

text \<open>
  \<^verbatim>\<open>DBManager\<close> wraps one PostgreSQL connection and keeps ten tables, created by
  \<^verbatim>\<open>initTables\<close>. Every method of \<^verbatim>\<open>DBManager\<close> sends one or a few SQL statements.
  The embedding keeps the contents of the tables in a record, passes it through every
  operation and returns it next to the Go \<^verbatim>\<open>error\<close> value.

  A table with a primary key and a \<^verbatim>\<open>reason\<close> column is a map from the key to the reason;
  the two kind tables have the key only and are sets. The \<^verbatim>\<open>created_at\<close> column is filled
  by the engine's clock and is read by the \<^verbatim>\<open>ORDER BY created_at\<close> listings only; it is
  left out, and so are the listings.
\<close>

subsection \<open>Errors\<close>

text \<open>
  The Go code returns untyped errors. \<open>InvalidArgument\<close> stands for the three
  \<^verbatim>\<open>fmt.Errorf\<close> values raised on an empty or nil argument ("pubkey cannot be empty",
  "event id cannot be empty", "ip cannot be nil"), \<open>NotFound\<close> for "pubkey ... not found in
  allowed list", \<open>ErrNoRows\<close> for \<^verbatim>\<open>sql.ErrNoRows\<close>, \<open>UnsupportedScan\<close> for the error of
  \<^verbatim>\<open>Scan\<close> on a destination it cannot convert to, and \<open>StorageFailure\<close> for any other error
  that \<^verbatim>\<open>database/sql\<close> or the engine reports (wrapped or not).
\<close>

datatype error = InvalidArgument | NotFound | ErrNoRows | UnsupportedScan | StorageFailure

subsection \<open>Tables\<close>

record store =
  allowed_pubkeys :: "string \<rightharpoonup> string"
  banned_pubkeys :: "string \<rightharpoonup> string"
  events_needing_moderation :: "string \<rightharpoonup> string"
  allowed_events :: "string \<rightharpoonup> string"
  banned_events :: "string \<rightharpoonup> string"
  allowed_kinds :: "int set"
  disallowed_kinds :: "int set"
  blocked_ips :: "string \<rightharpoonup> string"
  admins :: "string \<rightharpoonup> string list"
  relay_info :: "string \<rightharpoonup> string"

text \<open>The ten tables right after \<^verbatim>\<open>initTables\<close> on a fresh database.\<close>

definition empty_store :: store where
  "empty_store =
     \<lparr>allowed_pubkeys = Map.empty, banned_pubkeys = Map.empty,
      events_needing_moderation = Map.empty, allowed_events = Map.empty,
      banned_events = Map.empty, allowed_kinds = {}, disallowed_kinds = {},
      blocked_ips = Map.empty, admins = Map.empty, relay_info = Map.empty\<rparr>"

subsection \<open>The SQL statements, on one table\<close>

text \<open>\<^verbatim>\<open>INSERT ... ON CONFLICT (key) DO NOTHING\<close>\<close>

definition insert_do_nothing :: "'k \<Rightarrow> 'v \<Rightarrow> ('k \<rightharpoonup> 'v) \<Rightarrow> ('k \<rightharpoonup> 'v)" where
  "insert_do_nothing k v t = (case t k of None \<Rightarrow> t(k \<mapsto> v) | Some old \<Rightarrow> t)"

text \<open>\<^verbatim>\<open>INSERT ... ON CONFLICT (key) DO UPDATE SET col = $2\<close>\<close>

definition insert_do_update :: "'k \<Rightarrow> 'v \<Rightarrow> ('k \<rightharpoonup> 'v) \<Rightarrow> ('k \<rightharpoonup> 'v)" where
  "insert_do_update k v t = t(k \<mapsto> v)"

text \<open>\<^verbatim>\<open>DELETE FROM t WHERE key = $1\<close>, and the number of rows it reports as affected.\<close>

definition delete_where :: "'k \<Rightarrow> ('k \<rightharpoonup> 'v) \<Rightarrow> ('k \<rightharpoonup> 'v)" where
  "delete_where k t = t(k := None)"

definition rows_deleted :: "'k \<Rightarrow> ('k \<rightharpoonup> 'v) \<Rightarrow> nat" where
  "rows_deleted k t = (case t k of None \<Rightarrow> 0 | Some old \<Rightarrow> 1)"

text \<open>\<^verbatim>\<open>UPDATE t SET col = $1 WHERE key = $2\<close>\<close>

definition update_where :: "'k \<Rightarrow> 'v \<Rightarrow> ('k \<rightharpoonup> 'v) \<Rightarrow> ('k \<rightharpoonup> 'v)" where
  "update_where k v t = (case t k of None \<Rightarrow> t | Some old \<Rightarrow> t(k \<mapsto> v))"

subsection \<open>The connection\<close>

text \<open>
  Any call on the connection can fail for a reason outside the program (the engine is
  unreachable, a value does not fit its column, the driver cannot convert an argument).
  An operation therefore takes a fault plan: \<open>fails i\<close> says that the \<open>i\<close>-th call the
  operation makes on the connection (counted from 0, in program order) reports an error.
  A failed statement changes nothing.
\<close>

type_synonym faults = "nat \<Rightarrow> bool"

definition no_faults :: faults where
  "no_faults = (\<lambda>i. False)"

text \<open>\<^verbatim>\<open>dbm.db.Exec(query, ...)\<close> outside a transaction: the statement commits by itself.\<close>

definition db_Exec :: "bool \<Rightarrow> (store \<Rightarrow> store) \<Rightarrow> store \<Rightarrow> error option \<times> store" where
  "db_Exec fault stmt s = (if fault then (Some StorageFailure, s) else (None, stmt s))"

text \<open>
  \<^verbatim>\<open>dbm.db.QueryRow(query, pubkey).Scan(&methods)\<close> on the \<^verbatim>\<open>methods\<close> column of \<^verbatim>\<open>admins\<close>,
  with \<^verbatim>\<open>methods\<close> a bare \<^verbatim>\<open>[]string\<close> (no \<^verbatim>\<open>pq.Array\<close>). Without a row \<^verbatim>\<open>Scan\<close> returns
  \<^verbatim>\<open>sql.ErrNoRows\<close>. With a row, lib/pq hands the \<^verbatim>\<open>TEXT[]\<close> value over as \<^verbatim>\<open>[]byte\<close>, and
  \<^verbatim>\<open>database/sql\<close> has no conversion from that to \<^verbatim>\<open>*[]string\<close>: \<^verbatim>\<open>Scan\<close> returns
  "unsupported Scan, storing driver.Value type []uint8 into type *[]string" and the
  destination stays nil. The result type keeps the value branch that the callers are
  written for; no row reaches it.
\<close>

definition db_QueryRow_Scan_strings :: "bool \<Rightarrow> string list option \<Rightarrow> error + string list" where
  "db_QueryRow_Scan_strings fault r =
     (if fault then Inl StorageFailure
      else case r of None \<Rightarrow> Inl ErrNoRows | Some stored \<Rightarrow> Inl UnsupportedScan)"

text \<open>
  A transaction works on its own copy of the tables. \<^verbatim>\<open>Commit\<close> installs the copy,
  \<^verbatim>\<open>Rollback\<close> drops it and leaves the committed tables as they are. (Other clients of the
  engine are not modelled.)
\<close>

record tx =
  pending :: store

definition db_Begin :: "bool \<Rightarrow> store \<Rightarrow> error + tx" where
  "db_Begin fault s = (if fault then Inl StorageFailure else Inr \<lparr>pending = s\<rparr>)"

definition tx_Exec :: "bool \<Rightarrow> (store \<Rightarrow> store) \<Rightarrow> tx \<Rightarrow> error + tx" where
  "tx_Exec fault stmt t =
     (if fault then Inl StorageFailure else Inr (t\<lparr>pending := stmt (pending t)\<rparr>))"

definition tx_Rollback :: "tx \<Rightarrow> store \<Rightarrow> store" where
  "tx_Rollback t s = s"

definition tx_Commit :: "bool \<Rightarrow> tx \<Rightarrow> store \<Rightarrow> error option \<times> store" where
  "tx_Commit fault t s = (if fault then (Some StorageFailure, tx_Rollback t s) else (None, pending t))"

subsection \<open>Event moderation\<close>

text \<open>
  \<^verbatim>\<open>AddEventNeedingModeration\<close>: one \<^verbatim>\<open>INSERT ... ON CONFLICT (id) DO NOTHING\<close> after the
  check for an empty id.
\<close>

definition AddEventNeedingModeration ::
  "faults \<Rightarrow> store \<Rightarrow> string \<Rightarrow> string \<Rightarrow> error option \<times> store" where
  "AddEventNeedingModeration fails s eid reason =
     (if eid = [] then (Some InvalidArgument, s)
      else db_Exec (fails 0)
             (\<lambda>d. d\<lparr>events_needing_moderation :=
                       insert_do_nothing eid reason (events_needing_moderation d)\<rparr>) s)"

text \<open>
  \<^verbatim>\<open>AllowEvent\<close> and \<^verbatim>\<open>BanEvent\<close>: the check for an empty id, \<^verbatim>\<open>Begin\<close> (call 0), the
  deferred \<^verbatim>\<open>Rollback\<close>, three statements (calls 1 to 3), each followed by a return of its
  error, and \<^verbatim>\<open>Commit\<close> (call 4). After a \<^verbatim>\<open>Commit\<close> the deferred \<^verbatim>\<open>Rollback\<close> finds the
  transaction finished and does nothing.
\<close>

definition AllowEvent :: "faults \<Rightarrow> store \<Rightarrow> string \<Rightarrow> string \<Rightarrow> error option \<times> store" where
  "AllowEvent fails s eid reason =
     (if eid = [] then (Some InvalidArgument, s)
      else case db_Begin (fails 0) s of
        Inl err \<Rightarrow> (Some err, s)
      | Inr t0 \<Rightarrow>
         (case tx_Exec (fails 1)
                 (\<lambda>d. d\<lparr>allowed_events := insert_do_update eid reason (allowed_events d)\<rparr>) t0 of
            Inl err \<Rightarrow> (Some err, tx_Rollback t0 s)
          | Inr t1 \<Rightarrow>
             (case tx_Exec (fails 2)
                     (\<lambda>d. d\<lparr>events_needing_moderation :=
                               delete_where eid (events_needing_moderation d)\<rparr>) t1 of
                Inl err \<Rightarrow> (Some err, tx_Rollback t1 s)
              | Inr t2 \<Rightarrow>
                 (case tx_Exec (fails 3)
                         (\<lambda>d. d\<lparr>banned_events := delete_where eid (banned_events d)\<rparr>) t2 of
                    Inl err \<Rightarrow> (Some err, tx_Rollback t2 s)
                  | Inr t3 \<Rightarrow> tx_Commit (fails 4) t3 s))))"

definition BanEvent :: "faults \<Rightarrow> store \<Rightarrow> string \<Rightarrow> string \<Rightarrow> error option \<times> store" where
  "BanEvent fails s eid reason =
     (if eid = [] then (Some InvalidArgument, s)
      else case db_Begin (fails 0) s of
        Inl err \<Rightarrow> (Some err, s)
      | Inr t0 \<Rightarrow>
         (case tx_Exec (fails 1)
                 (\<lambda>d. d\<lparr>banned_events := insert_do_update eid reason (banned_events d)\<rparr>) t0 of
            Inl err \<Rightarrow> (Some err, tx_Rollback t0 s)
          | Inr t1 \<Rightarrow>
             (case tx_Exec (fails 2)
                     (\<lambda>d. d\<lparr>events_needing_moderation :=
                               delete_where eid (events_needing_moderation d)\<rparr>) t1 of
                Inl err \<Rightarrow> (Some err, tx_Rollback t1 s)
              | Inr t2 \<Rightarrow>
                 (case tx_Exec (fails 3)
                         (\<lambda>d. d\<lparr>allowed_events := delete_where eid (allowed_events d)\<rparr>) t2 of
                    Inl err \<Rightarrow> (Some err, tx_Rollback t2 s)
                  | Inr t3 \<Rightarrow> tx_Commit (fails 4) t3 s))))"

subsection \<open>Identity lists\<close>

text \<open>
  \<^verbatim>\<open>AddAllowedPubkey\<close>: \<^verbatim>\<open>INSERT ... ON CONFLICT (pubkey) DO NOTHING\<close>; the error of
  \<^verbatim>\<open>Exec\<close> is wrapped and returned.
\<close>

definition AddAllowedPubkey :: "faults \<Rightarrow> store \<Rightarrow> string \<Rightarrow> string \<Rightarrow> error option \<times> store" where
  "AddAllowedPubkey fails s pubkey reason =
     (if pubkey = [] then (Some InvalidArgument, s)
      else db_Exec (fails 0)
             (\<lambda>d. d\<lparr>allowed_pubkeys := insert_do_nothing pubkey reason (allowed_pubkeys d)\<rparr>) s)"

text \<open>
  \<^verbatim>\<open>RemoveAllowedPubkey\<close>: the \<^verbatim>\<open>DELETE\<close> (call 0), then \<^verbatim>\<open>result.RowsAffected()\<close>
  (call 1), then the test \<^verbatim>\<open>rowsAffected == 0\<close>. The \<^verbatim>\<open>DELETE\<close> has committed by the
  time the count is read.
\<close>

definition RemoveAllowedPubkey :: "faults \<Rightarrow> store \<Rightarrow> string \<Rightarrow> error option \<times> store" where
  "RemoveAllowedPubkey fails s pubkey =
     (if pubkey = [] then (Some InvalidArgument, s)
      else if fails 0 then (Some StorageFailure, s)
      else
        let rowsAffected = rows_deleted pubkey (allowed_pubkeys s);
            s' = s\<lparr>allowed_pubkeys := delete_where pubkey (allowed_pubkeys s)\<rparr>
        in if fails 1 then (Some StorageFailure, s')
           else if rowsAffected = 0 then (Some NotFound, s')
           else (None, s'))"

text \<open>\<^verbatim>\<open>BanPubKey\<close>: \<^verbatim>\<open>INSERT ... ON CONFLICT (pubkey) DO UPDATE SET reason = $2\<close>.\<close>

definition BanPubKey :: "faults \<Rightarrow> store \<Rightarrow> string \<Rightarrow> string \<Rightarrow> error option \<times> store" where
  "BanPubKey fails s pubkey reason =
     (if pubkey = [] then (Some InvalidArgument, s)
      else db_Exec (fails 0)
             (\<lambda>d. d\<lparr>banned_pubkeys := insert_do_update pubkey reason (banned_pubkeys d)\<rparr>) s)"

subsection \<open>Kinds\<close>

text \<open>
  \<^verbatim>\<open>AllowKind\<close> and \<^verbatim>\<open>DisallowKind\<close>: \<^verbatim>\<open>Begin\<close> (call 0), the insert with
  \<^verbatim>\<open>ON CONFLICT (kind) DO NOTHING\<close> (call 1), the delete from the other table (call 2),
  \<^verbatim>\<open>Commit\<close> (call 3). A Go \<^verbatim>\<open>int\<close> that does not fit the \<^verbatim>\<open>INTEGER\<close> column is refused
  by the engine, which is a fault of call 1.
\<close>

definition AllowKind :: "faults \<Rightarrow> store \<Rightarrow> int \<Rightarrow> error option \<times> store" where
  "AllowKind fails s kind =
     (case db_Begin (fails 0) s of
        Inl err \<Rightarrow> (Some err, s)
      | Inr t0 \<Rightarrow>
         (case tx_Exec (fails 1) (\<lambda>d. d\<lparr>allowed_kinds := insert kind (allowed_kinds d)\<rparr>) t0 of
            Inl err \<Rightarrow> (Some err, tx_Rollback t0 s)
          | Inr t1 \<Rightarrow>
             (case tx_Exec (fails 2)
                     (\<lambda>d. d\<lparr>disallowed_kinds := disallowed_kinds d - {kind}\<rparr>) t1 of
                Inl err \<Rightarrow> (Some err, tx_Rollback t1 s)
              | Inr t2 \<Rightarrow> tx_Commit (fails 3) t2 s)))"

definition DisallowKind :: "faults \<Rightarrow> store \<Rightarrow> int \<Rightarrow> error option \<times> store" where
  "DisallowKind fails s kind =
     (case db_Begin (fails 0) s of
        Inl err \<Rightarrow> (Some err, s)
      | Inr t0 \<Rightarrow>
         (case tx_Exec (fails 1)
                 (\<lambda>d. d\<lparr>disallowed_kinds := insert kind (disallowed_kinds d)\<rparr>) t0 of
            Inl err \<Rightarrow> (Some err, tx_Rollback t0 s)
          | Inr t1 \<Rightarrow>
             (case tx_Exec (fails 2) (\<lambda>d. d\<lparr>allowed_kinds := allowed_kinds d - {kind}\<rparr>) t1 of
                Inl err \<Rightarrow> (Some err, tx_Rollback t1 s)
              | Inr t2 \<Rightarrow> tx_Commit (fails 3) t2 s)))"

text \<open>
  A sequence of calls on one kind, each with its own fault plan; the errors are collected
  in call order.
\<close>

datatype kind_call = CallAllowKind faults | CallDisallowKind faults

fun do_kind_call :: "int \<Rightarrow> kind_call \<Rightarrow> store \<Rightarrow> error option \<times> store" where
  "do_kind_call k (CallAllowKind fails) s = AllowKind fails s k"
| "do_kind_call k (CallDisallowKind fails) s = DisallowKind fails s k"

fun do_kind_calls :: "int \<Rightarrow> kind_call list \<Rightarrow> store \<Rightarrow> error option list \<times> store" where
  "do_kind_calls k [] s = ([], s)"
| "do_kind_calls k (c # cs) s =
     (case do_kind_call k c s of
        (e, s') \<Rightarrow> (case do_kind_calls k cs s' of (es, s'') \<Rightarrow> (e # es, s'')))"

subsection \<open>Blocked addresses\<close>

text \<open>
  The two operations look at a \<^verbatim>\<open>net.IP\<close> in two ways only: the test \<^verbatim>\<open>ip == nil\<close> and the
  text \<^verbatim>\<open>ip.String()\<close> that is sent to the engine. An address is therefore \<open>None\<close> for nil
  and \<open>Some t\<close> for a non-nil address whose \<^verbatim>\<open>String()\<close> is \<open>t\<close>. The table is keyed by that
  text (for a well-formed address the text is canonical, so two texts are equal exactly
  when the \<^verbatim>\<open>INET\<close> values are).
\<close>

type_synonym IP = "string option"

definition BlockIP :: "faults \<Rightarrow> store \<Rightarrow> IP \<Rightarrow> string \<Rightarrow> error option \<times> store" where
  "BlockIP fails s ip reason =
     (case ip of
        None \<Rightarrow> (Some InvalidArgument, s)
      | Some text \<Rightarrow>
          db_Exec (fails 0)
            (\<lambda>d. d\<lparr>blocked_ips := insert_do_update text reason (blocked_ips d)\<rparr>) s)"

definition UnblockIP :: "faults \<Rightarrow> store \<Rightarrow> IP \<Rightarrow> error option \<times> store" where
  "UnblockIP fails s ip =
     (case ip of
        None \<Rightarrow> (Some InvalidArgument, s)
      | Some text \<Rightarrow>
          db_Exec (fails 0) (\<lambda>d. d\<lparr>blocked_ips := delete_where text (blocked_ips d)\<rparr>) s)"

subsection \<open>Administrative grants\<close>

text \<open>
  The \<^verbatim>\<open>methods\<close> column is a \<^verbatim>\<open>TEXT[]\<close>; a Go \<^verbatim>\<open>[]string\<close> is a list, nil and empty both
  \<open>[]\<close>. \<^verbatim>\<open>GrantAdmin\<close>: \<^verbatim>\<open>INSERT ... ON CONFLICT (pubkey) DO UPDATE SET methods = $2\<close>; the
  driver is taken to store the \<^verbatim>\<open>[]string\<close> argument as the array it is.
\<close>

definition GrantAdmin :: "faults \<Rightarrow> store \<Rightarrow> string \<Rightarrow> string list \<Rightarrow> error option \<times> store" where
  "GrantAdmin fails s pubkey methods =
     (if pubkey = [] then (Some InvalidArgument, s)
      else db_Exec (fails 0)
             (\<lambda>d. d\<lparr>admins := insert_do_update pubkey methods (admins d)\<rparr>) s)"

text \<open>
  \<^verbatim>\<open>RevokeAdmin\<close>. The Go \<^verbatim>\<open>map[string]bool\<close> is an association list with distinct keys:
  \<^verbatim>\<open>methodMap[m] = true\<close> is \<open>AList.update m True\<close> and \<^verbatim>\<open>delete(methodMap, m)\<close> is
  \<open>AList.delete m\<close>. Go visits the keys of a map in an order of its own choosing;
  \<open>range_order\<close> is that choice, applied to the keys. The part after the \<^verbatim>\<open>Scan\<close> is kept
  as the source has it, although \<open>db_QueryRow_Scan_strings\<close> never yields a value for it.
\<close>

definition go_range_order :: "(string list \<Rightarrow> string list) \<Rightarrow> bool" where
  "go_range_order range_order \<longleftrightarrow>
     (\<forall>ks. distinct ks \<longrightarrow> set (range_order ks) = set ks \<and> distinct (range_order ks))"

definition RevokeAdmin ::
  "(string list \<Rightarrow> string list) \<Rightarrow> faults \<Rightarrow> store \<Rightarrow> string \<Rightarrow> string list
     \<Rightarrow> error option \<times> store" where
  "RevokeAdmin range_order fails s pubkey methods =
     (if pubkey = [] then (Some InvalidArgument, s)
      else if length methods = 0
      then db_Exec (fails 0) (\<lambda>d. d\<lparr>admins := delete_where pubkey (admins d)\<rparr>) s
      else case db_QueryRow_Scan_strings (fails 0) (admins s pubkey) of
        Inl err \<Rightarrow> (if err = ErrNoRows then (None, s) else (Some err, s))
      | Inr currentMethods \<Rightarrow>
          let methodMap = fold (\<lambda>m mm. AList.update m True mm) currentMethods [];
              methodMap = fold (\<lambda>m mm. AList.delete m mm) methods methodMap;
              newMethods = range_order (map fst methodMap)
          in if length newMethods = 0
             then db_Exec (fails 1) (\<lambda>d. d\<lparr>admins := delete_where pubkey (admins d)\<rparr>) s
             else db_Exec (fails 1)
                    (\<lambda>d. d\<lparr>admins := update_where pubkey newMethods (admins d)\<rparr>) s)"

text \<open>
  \<^verbatim>\<open>GetAdminMethods\<close> returns the pair of Go; the tables are only read. On
  \<^verbatim>\<open>sql.ErrNoRows\<close> it returns \<^verbatim>\<open>(nil, nil)\<close>; on another error \<^verbatim>\<open>methods\<close> is still nil.
\<close>

definition GetAdminMethods :: "faults \<Rightarrow> store \<Rightarrow> string \<Rightarrow> string list \<times> error option" where
  "GetAdminMethods fails s pubkey =
     (case db_QueryRow_Scan_strings (fails 0) (admins s pubkey) of
        Inl err \<Rightarrow> (if err = ErrNoRows then ([], None) else ([], Some err))
      | Inr methods \<Rightarrow> (methods, None))"

text \<open>The keys left in \<^verbatim>\<open>methodMap\<close> after the two loops of \<^verbatim>\<open>RevokeAdmin\<close>.\<close>

definition kept_keys :: "string list \<Rightarrow> string list \<Rightarrow> string list" where
  "kept_keys currentMethods methods =
     map fst (fold (\<lambda>m mm. AList.delete m mm) methods
                (fold (\<lambda>m mm. AList.update m True mm) currentMethods []))"

subsection \<open>Predicates used in the statements\<close>

text \<open>A kind is on exactly one of the two kind lists.\<close>

definition exactly_one_kind_list :: "int \<Rightarrow> store \<Rightarrow> bool" where
  "exactly_one_kind_list k s \<longleftrightarrow> (k \<in> allowed_kinds s) \<noteq> (k \<in> disallowed_kinds s)"

text \<open>A call on the kind lists during which no call on the connection fails.\<close>

definition faultless :: "kind_call \<Rightarrow> bool" where
  "faultless c \<longleftrightarrow> c = CallAllowKind no_faults \<or> c = CallDisallowKind no_faults"

text \<open>No row of \<^verbatim>\<open>admins\<close> has an empty method list.\<close>

definition grants_nonempty :: "store \<Rightarrow> bool" where
  "grants_nonempty s \<longleftrightarrow> (\<forall>p ms. admins s p = Some ms \<longrightarrow> ms \<noteq> [])"

section \<open>Properties\<close>

subsection \<open>The operations by cases\<close>

lemmas conn_defs = db_Exec_def db_QueryRow_Scan_strings_def db_Begin_def tx_Exec_def tx_Rollback_def
  tx_Commit_def no_faults_def

lemmas sql_defs = insert_do_nothing_def insert_do_update_def delete_where_def rows_deleted_def
  update_where_def

lemma delete_absent_row: "t k = None \<Longrightarrow> t(k := None) = t"
  by (simp add: fun_upd_idem_iff)

lemma AllowEvent_cases:
  "AllowEvent fails s eid reason =
     (if eid = [] then (Some InvalidArgument, s)
      else if fails 0 \<or> fails 1 \<or> fails 2 \<or> fails 3 \<or> fails 4 then (Some StorageFailure, s)
      else (None, s\<lparr>allowed_events := (allowed_events s)(eid \<mapsto> reason),
                     events_needing_moderation := (events_needing_moderation s)(eid := None),
                     banned_events := (banned_events s)(eid := None)\<rparr>))"
  by (simp add: AllowEvent_def conn_defs sql_defs)

lemma BanEvent_cases:
  "BanEvent fails s eid reason =
     (if eid = [] then (Some InvalidArgument, s)
      else if fails 0 \<or> fails 1 \<or> fails 2 \<or> fails 3 \<or> fails 4 then (Some StorageFailure, s)
      else (None, s\<lparr>banned_events := (banned_events s)(eid \<mapsto> reason),
                     events_needing_moderation := (events_needing_moderation s)(eid := None),
                     allowed_events := (allowed_events s)(eid := None)\<rparr>))"
  by (simp add: BanEvent_def conn_defs sql_defs)

lemma AllowKind_cases:
  "AllowKind fails s k =
     (if fails 0 \<or> fails 1 \<or> fails 2 \<or> fails 3 then (Some StorageFailure, s)
      else (None, s\<lparr>allowed_kinds := insert k (allowed_kinds s),
                     disallowed_kinds := disallowed_kinds s - {k}\<rparr>))"
  by (simp add: AllowKind_def conn_defs)

lemma DisallowKind_cases:
  "DisallowKind fails s k =
     (if fails 0 \<or> fails 1 \<or> fails 2 \<or> fails 3 then (Some StorageFailure, s)
      else (None, s\<lparr>disallowed_kinds := insert k (disallowed_kinds s),
                     allowed_kinds := allowed_kinds s - {k}\<rparr>))"
  by (simp add: DisallowKind_def conn_defs)

lemma keys_delete: "fst ` set (AList.delete k al) = fst ` set al - {k}"
  by (induction al) auto

lemma keys_fold_update:
  "fst ` set (fold (\<lambda>m mm. AList.update m v mm) xs al) = set xs \<union> fst ` set al"
proof (induction xs arbitrary: al)
  case Nil
  show ?case by simp
next
  case (Cons x xs)
  show ?case by (auto simp add: Cons.IH AList.dom_update)
qed

lemma distinct_fold_update:
  "distinct (map fst al) \<Longrightarrow> distinct (map fst (fold (\<lambda>m mm. AList.update m v mm) xs al))"
  by (induction xs arbitrary: al) (simp_all add: AList.distinct_update)

lemma keys_fold_delete:
  "fst ` set (fold (\<lambda>m mm. AList.delete m mm) xs al) = fst ` set al - set xs"
proof (induction xs arbitrary: al)
  case Nil
  show ?case by simp
next
  case (Cons x xs)
  show ?case by (auto simp add: Cons.IH keys_delete)
qed

lemma distinct_fold_delete:
  "distinct (map fst al) \<Longrightarrow> distinct (map fst (fold (\<lambda>m mm. AList.delete m mm) xs al))"
  by (induction xs arbitrary: al) (simp_all add: AList.distinct_delete)

lemma kept_keys_set: "set (kept_keys cur ms) = set cur - set ms"
  unfolding kept_keys_def by (simp add: keys_fold_delete keys_fold_update)

lemma kept_keys_distinct: "distinct (kept_keys cur ms)"
  unfolding kept_keys_def by (rule distinct_fold_delete, rule distinct_fold_update) simp

lemma go_range_order_set:
  "go_range_order ro \<Longrightarrow> set (ro (kept_keys cur ms)) = set cur - set ms"
  using kept_keys_distinct [of cur ms] by (simp add: go_range_order_def kept_keys_set)

lemma go_range_order_distinct:
  "go_range_order ro \<Longrightarrow> distinct (ro (kept_keys cur ms))"
  using kept_keys_distinct [of cur ms] by (simp add: go_range_order_def)

lemma RevokeAdmin_cases:
  "RevokeAdmin ro fails s pubkey methods =
     (if pubkey = [] then (Some InvalidArgument, s)
      else if methods = [] then
        (if fails 0 then (Some StorageFailure, s)
         else (None, s\<lparr>admins := (admins s)(pubkey := None)\<rparr>))
      else if fails 0 then (Some StorageFailure, s)
      else case admins s pubkey of
        None \<Rightarrow> (None, s)
      | Some cur \<Rightarrow> (Some UnsupportedScan, s))"
  by (simp add: RevokeAdmin_def conn_defs sql_defs split: option.splits)

lemma RevokeAdmin_named_methods_of_a_grant:
  "pubkey \<noteq> [] \<Longrightarrow> methods \<noteq> [] \<Longrightarrow> admins s pubkey = Some cur \<Longrightarrow>
     fst (RevokeAdmin ro fails s pubkey methods) \<noteq> None \<and>
     snd (RevokeAdmin ro fails s pubkey methods) = s"
  by (simp add: RevokeAdmin_cases)

lemma GetAdminMethods_of_a_grant:
  "admins s pubkey = Some ms \<Longrightarrow>
     fst (GetAdminMethods fails s pubkey) = [] \<and> snd (GetAdminMethods fails s pubkey) \<noteq> None"
  by (simp add: GetAdminMethods_def conn_defs)

subsection \<open>Sequences of calls on the kind lists\<close>

lemma do_kind_call_step:
  "do_kind_call k c s = (e, s') \<Longrightarrow>
     (e = None \<and> exactly_one_kind_list k s') \<or> (e \<noteq> None \<and> s' = s)"
  by (cases c) (auto simp: AllowKind_cases DisallowKind_cases exactly_one_kind_list_def
      split: if_splits)

lemma do_kind_calls_exactly_one:
  "do_kind_calls k cs s = (es, s') \<Longrightarrow> exactly_one_kind_list k s \<or> None \<in> set es \<Longrightarrow>
     exactly_one_kind_list k s'"
proof (induction cs arbitrary: s es s')
  case Nil
  then show ?case by simp
next
  case (Cons c cs)
  obtain e s1 where c: "do_kind_call k c s = (e, s1)" by (cases "do_kind_call k c s")
  obtain es1 s2 where cs: "do_kind_calls k cs s1 = (es1, s2)" by (cases "do_kind_calls k cs s1")
  from Cons.prems(1) c cs have es: "es = e # es1" and s': "s' = s2" by simp_all
  from do_kind_call_step [OF c] Cons.prems(2) es
  have "exactly_one_kind_list k s1 \<or> None \<in> set es1" by auto
  from Cons.IH [OF cs this] s' show ?case by simp
qed

lemma do_kind_call_faultless: "faultless c \<Longrightarrow> fst (do_kind_call k c s) = None"
  by (auto simp: faultless_def AllowKind_cases DisallowKind_cases no_faults_def)

lemma do_kind_calls_faultless:
  "do_kind_calls k cs s = (es, s') \<Longrightarrow> \<forall>c \<in> set cs. faultless c \<Longrightarrow> cs \<noteq> [] \<Longrightarrow> None \<in> set es"
proof (cases cs)
  case Nil
  assume "cs \<noteq> []"
  with Nil show ?thesis by simp
next
  case (Cons c cs1)
  assume r: "do_kind_calls k cs s = (es, s')" and f: "\<forall>c \<in> set cs. faultless c"
  from f Cons have "fst (do_kind_call k c s) = None" by (simp add: do_kind_call_faultless)
  with r Cons show ?thesis by (auto split: prod.splits)
qed

subsection \<open>What keeps every grant non-empty\<close>

lemma GrantAdmin_keeps_grants_nonempty:
  "grants_nonempty s \<Longrightarrow> methods \<noteq> [] \<Longrightarrow> grants_nonempty (snd (GrantAdmin fails s pubkey methods))"
  by (simp add: GrantAdmin_def conn_defs sql_defs grants_nonempty_def)

lemma GrantAdmin_empty_list_breaks_grants_nonempty:
  "pubkey \<noteq> [] \<Longrightarrow> \<not> fails 0 \<Longrightarrow> \<not> grants_nonempty (snd (GrantAdmin fails s pubkey []))"
  by (auto simp: GrantAdmin_def conn_defs sql_defs grants_nonempty_def)

lemma RevokeAdmin_keeps_grants_nonempty:
  "grants_nonempty s \<Longrightarrow> grants_nonempty (snd (RevokeAdmin ro fails s pubkey methods))"
  by (simp add: RevokeAdmin_cases grants_nonempty_def split: option.splits)

section \<open>The claims\<close>

subsection \<open>Event moderation\<close>

text \<open>
  C1. After a successful \<^verbatim>\<open>AllowEvent(e, r)\<close> the event id \<open>e\<close> is non-empty, is in
  \<^verbatim>\<open>allowed_events\<close> with reason \<open>r\<close>, and is neither in \<^verbatim>\<open>events_needing_moderation\<close> nor
  in \<^verbatim>\<open>banned_events\<close>; after a successful \<^verbatim>\<open>BanEvent(e, r)\<close> it is in \<^verbatim>\<open>banned_events\<close>
  with reason \<open>r\<close> and in neither of the other two tables. With a non-empty id and no fault
  of the connection both calls succeed.
\<close>

theorem AllowEvent_BanEvent_postcondition:
  "(fst (AllowEvent fails s eid reason) = None \<longrightarrow>
      eid \<noteq> '''' \<and>
      allowed_events (snd (AllowEvent fails s eid reason)) eid = Some reason \<and>
      events_needing_moderation (snd (AllowEvent fails s eid reason)) eid = None \<and>
      banned_events (snd (AllowEvent fails s eid reason)) eid = None) \<and>
   (fst (BanEvent fails s eid reason) = None \<longrightarrow>
      eid \<noteq> '''' \<and>
      banned_events (snd (BanEvent fails s eid reason)) eid = Some reason \<and>
      events_needing_moderation (snd (BanEvent fails s eid reason)) eid = None \<and>
      allowed_events (snd (BanEvent fails s eid reason)) eid = None) \<and>
   (eid \<noteq> '''' \<and> \<not> fails 0 \<and> \<not> fails 1 \<and> \<not> fails 2 \<and> \<not> fails 3 \<and> \<not> fails 4 \<longrightarrow>
      fst (AllowEvent fails s eid reason) = None \<and> fst (BanEvent fails s eid reason) = None)"
  by (simp add: AllowEvent_cases BanEvent_cases)

theorem AllowEvent_BanEvent_postcondition_witness:
  "events_needing_moderation
     (snd (AddEventNeedingModeration no_faults empty_store ''e1'' ''spam'')) ''e1'' = Some ''spam'' \<and>
   fst (AllowEvent no_faults
          (snd (AddEventNeedingModeration no_faults empty_store ''e1'' ''spam''))
          ''e1'' ''confirmed'') = None \<and>
   allowed_events
     (snd (AllowEvent no_faults
             (snd (AddEventNeedingModeration no_faults empty_store ''e1'' ''spam''))
             ''e1'' ''confirmed'')) ''e1'' = Some ''confirmed'' \<and>
   events_needing_moderation
     (snd (AllowEvent no_faults
             (snd (AddEventNeedingModeration no_faults empty_store ''e1'' ''spam''))
             ''e1'' ''confirmed'')) ''e1'' = None \<and>
   fst (BanEvent no_faults
          (snd (AddEventNeedingModeration no_faults empty_store ''e1'' ''spam''))
          ''e1'' ''confirmed'') = None \<and>
   banned_events
     (snd (BanEvent no_faults
             (snd (AddEventNeedingModeration no_faults empty_store ''e1'' ''spam''))
             ''e1'' ''confirmed'')) ''e1'' = Some ''confirmed'' \<and>
   events_needing_moderation
     (snd (BanEvent no_faults
             (snd (AddEventNeedingModeration no_faults empty_store ''e1'' ''spam''))
             ''e1'' ''confirmed'')) ''e1'' = None"
proof -
  let ?s = "snd (AddEventNeedingModeration no_faults empty_store ''e1'' ''spam'')"
  have p: "events_needing_moderation ?s ''e1'' = Some ''spam''"
    by (simp add: AddEventNeedingModeration_def conn_defs sql_defs empty_store_def)
  have f: "''e1'' \<noteq> '''' \<and> \<not> no_faults 0 \<and> \<not> no_faults 1 \<and> \<not> no_faults 2 \<and>
           \<not> no_faults 3 \<and> \<not> no_faults 4"
    by (simp add: no_faults_def)
  note t = AllowEvent_BanEvent_postcondition [of no_faults ?s "''e1''" "''confirmed''"]
  from t f have ok: "fst (AllowEvent no_faults ?s ''e1'' ''confirmed'') = None \<and>
                     fst (BanEvent no_faults ?s ''e1'' ''confirmed'') = None"
    by blast
  with t have c:
    "allowed_events (snd (AllowEvent no_faults ?s ''e1'' ''confirmed'')) ''e1'' = Some ''confirmed'' \<and>
     events_needing_moderation (snd (AllowEvent no_faults ?s ''e1'' ''confirmed'')) ''e1'' = None \<and>
     banned_events (snd (BanEvent no_faults ?s ''e1'' ''confirmed'')) ''e1'' = Some ''confirmed'' \<and>
     events_needing_moderation (snd (BanEvent no_faults ?s ''e1'' ''confirmed'')) ''e1'' = None"
    by simp
  from p ok c show ?thesis by simp
qed

text \<open>
  C2. \<^verbatim>\<open>AllowEvent\<close> and \<^verbatim>\<open>BanEvent\<close> are atomic: when one of the three statements fails
  the call returns an error, and whenever the call returns an error (a failed statement, a
  failed \<^verbatim>\<open>Begin\<close> or \<^verbatim>\<open>Commit\<close>, an empty id) every table is as it was before the call.
\<close>

theorem AllowEvent_BanEvent_atomic:
  "(fails 1 \<or> fails 2 \<or> fails 3 \<longrightarrow> fst (AllowEvent fails s eid reason) \<noteq> None) \<and>
   (fst (AllowEvent fails s eid reason) \<noteq> None \<longrightarrow> snd (AllowEvent fails s eid reason) = s) \<and>
   (fails 1 \<or> fails 2 \<or> fails 3 \<longrightarrow> fst (BanEvent fails s eid reason) \<noteq> None) \<and>
   (fst (BanEvent fails s eid reason) \<noteq> None \<longrightarrow> snd (BanEvent fails s eid reason) = s)"
  by (simp add: AllowEvent_cases BanEvent_cases)

theorem AllowEvent_BanEvent_atomic_witness:
  "(\<lambda>i. i = 3) (3::nat) \<and>
   AllowEvent (\<lambda>i. i = 3)
     (snd (AddEventNeedingModeration no_faults empty_store ''e1'' ''spam'')) ''e1'' ''fine''
     = (Some StorageFailure, snd (AddEventNeedingModeration no_faults empty_store ''e1'' ''spam'')) \<and>
   BanEvent (\<lambda>i. i = 3)
     (snd (AddEventNeedingModeration no_faults empty_store ''e1'' ''spam'')) ''e1'' ''fine''
     = (Some StorageFailure, snd (AddEventNeedingModeration no_faults empty_store ''e1'' ''spam''))"
proof -
  let ?s = "snd (AddEventNeedingModeration no_faults empty_store ''e1'' ''spam'')"
  let ?f = "\<lambda>i::nat. i = 3"
  have h: "?f 1 \<or> ?f 2 \<or> ?f 3" by simp
  note t = AllowEvent_BanEvent_atomic [of ?f ?s "''e1''" "''fine''"]
  from t h have e: "fst (AllowEvent ?f ?s ''e1'' ''fine'') \<noteq> None \<and>
                    fst (BanEvent ?f ?s ''e1'' ''fine'') \<noteq> None"
    by blast
  with t have u: "snd (AllowEvent ?f ?s ''e1'' ''fine'') = ?s \<and>
                  snd (BanEvent ?f ?s ''e1'' ''fine'') = ?s"
    by blast
  have a: "fst (AllowEvent ?f ?s ''e1'' ''fine'') = Some StorageFailure"
    by (simp add: AllowEvent_cases)
  have b: "fst (BanEvent ?f ?s ''e1'' ''fine'') = Some StorageFailure"
    by (simp add: BanEvent_cases)
  from a b u show ?thesis by (simp add: prod_eq_iff)
qed

text \<open>
  C10. \<^verbatim>\<open>AddEventNeedingModeration\<close>, \<^verbatim>\<open>AllowEvent\<close> and \<^verbatim>\<open>BanEvent\<close> called with an empty
  event id return an error, whatever the connection does, and leave every table unchanged.
\<close>

theorem empty_event_id_rejected:
  "AddEventNeedingModeration fails s '''' reason = (Some InvalidArgument, s) \<and>
   AllowEvent fails s '''' reason = (Some InvalidArgument, s) \<and>
   BanEvent fails s '''' reason = (Some InvalidArgument, s)"
  by (simp add: AddEventNeedingModeration_def AllowEvent_def BanEvent_def)


subsection \<open>Kinds\<close>

text \<open>
  C3. After a successful \<^verbatim>\<open>AllowKind(k)\<close> the kind \<open>k\<close> is in \<^verbatim>\<open>allowed_kinds\<close> and not in
  \<^verbatim>\<open>disallowed_kinds\<close>, and the other way round after a successful \<^verbatim>\<open>DisallowKind(k)\<close>.
  After a sequence of \<^verbatim>\<open>AllowKind(k)\<close> and \<^verbatim>\<open>DisallowKind(k)\<close> calls of which at least one
  returned without error, \<open>k\<close> is on exactly one of the two lists; in a non-empty sequence
  run without a fault of the connection the first call already returns without error.
\<close>

theorem kind_lists_exclusive:
  "(fst (AllowKind fails s k) = None \<longrightarrow>
      k \<in> allowed_kinds (snd (AllowKind fails s k)) \<and>
      k \<notin> disallowed_kinds (snd (AllowKind fails s k))) \<and>
   (fst (DisallowKind fails s k) = None \<longrightarrow>
      k \<in> disallowed_kinds (snd (DisallowKind fails s k)) \<and>
      k \<notin> allowed_kinds (snd (DisallowKind fails s k))) \<and>
   (None \<in> set (fst (do_kind_calls k cs s)) \<longrightarrow>
      (k \<in> allowed_kinds (snd (do_kind_calls k cs s))) \<noteq>
      (k \<in> disallowed_kinds (snd (do_kind_calls k cs s)))) \<and>
   (cs \<noteq> [] \<and> (\<forall>c \<in> set cs. faultless c) \<longrightarrow> None \<in> set (fst (do_kind_calls k cs s)))"
proof -
  obtain es s' where r: "do_kind_calls k cs s = (es, s')" by (cases "do_kind_calls k cs s")
  have a: "fst (AllowKind fails s k) = None \<longrightarrow>
      k \<in> allowed_kinds (snd (AllowKind fails s k)) \<and>
      k \<notin> disallowed_kinds (snd (AllowKind fails s k))"
    by (simp add: AllowKind_cases)
  have d: "fst (DisallowKind fails s k) = None \<longrightarrow>
      k \<in> disallowed_kinds (snd (DisallowKind fails s k)) \<and>
      k \<notin> allowed_kinds (snd (DisallowKind fails s k))"
    by (simp add: DisallowKind_cases)
  have q: "None \<in> set (fst (do_kind_calls k cs s)) \<longrightarrow>
      (k \<in> allowed_kinds (snd (do_kind_calls k cs s))) \<noteq>
      (k \<in> disallowed_kinds (snd (do_kind_calls k cs s)))"
    using do_kind_calls_exactly_one [OF r] r by (simp add: exactly_one_kind_list_def)
  have w: "cs \<noteq> [] \<and> (\<forall>c \<in> set cs. faultless c) \<longrightarrow> None \<in> set (fst (do_kind_calls k cs s))"
    using do_kind_calls_faultless [OF r] r by simp
  from a d q w show ?thesis by blast
qed

theorem kind_lists_exclusive_witness:
  "fst (AllowKind no_faults empty_store 1) = None \<and>
   1 \<in> allowed_kinds (snd (AllowKind no_faults empty_store 1)) \<and>
   1 \<notin> disallowed_kinds (snd (AllowKind no_faults empty_store 1)) \<and>
   fst (DisallowKind no_faults empty_store 1) = None \<and>
   1 \<in> disallowed_kinds (snd (DisallowKind no_faults empty_store 1)) \<and>
   1 \<notin> allowed_kinds (snd (DisallowKind no_faults empty_store 1)) \<and>
   faultless (CallAllowKind no_faults) \<and> faultless (CallDisallowKind no_faults) \<and>
   fst (do_kind_calls 1 [CallAllowKind no_faults, CallDisallowKind no_faults] empty_store)
     = [None, None] \<and>
   (1 \<in> allowed_kinds
          (snd (do_kind_calls 1 [CallAllowKind no_faults, CallDisallowKind no_faults] empty_store)))
     \<noteq> (1 \<in> disallowed_kinds
          (snd (do_kind_calls 1 [CallAllowKind no_faults, CallDisallowKind no_faults] empty_store)))"
proof -
  let ?cs = "[CallAllowKind no_faults, CallDisallowKind no_faults]"
  note t = kind_lists_exclusive [of no_faults empty_store 1 ?cs]
  have h1: "fst (AllowKind no_faults empty_store 1) = None"
    by (simp add: AllowKind_cases no_faults_def)
  have h2: "fst (DisallowKind no_faults empty_store 1) = None"
    by (simp add: DisallowKind_cases no_faults_def)
  have h3: "?cs \<noteq> [] \<and> (\<forall>c \<in> set ?cs. faultless c)"
    by (simp add: faultless_def)
  have h4: "fst (do_kind_calls 1 ?cs empty_store) = [None, None]"
    by (simp add: AllowKind_cases DisallowKind_cases no_faults_def split: prod.splits)
  from t h3 have h5: "None \<in> set (fst (do_kind_calls 1 ?cs empty_store))" by blast
  from t h1 have c1: "1 \<in> allowed_kinds (snd (AllowKind no_faults empty_store 1)) \<and>
      1 \<notin> disallowed_kinds (snd (AllowKind no_faults empty_store 1))" by blast
  from t h2 have c2: "1 \<in> disallowed_kinds (snd (DisallowKind no_faults empty_store 1)) \<and>
      1 \<notin> allowed_kinds (snd (DisallowKind no_faults empty_store 1))" by blast
  from t h5 have c3: "(1 \<in> allowed_kinds (snd (do_kind_calls 1 ?cs empty_store))) \<noteq>
      (1 \<in> disallowed_kinds (snd (do_kind_calls 1 ?cs empty_store)))" by blast
  from h1 h2 h3 h4 c1 c2 c3 show ?thesis by simp
qed

subsection \<open>Identity lists\<close>

text \<open>
  C5. \<^verbatim>\<open>AddAllowedPubkey\<close> with an empty pubkey fails with the empty-argument error. On a
  pubkey that is already in \<^verbatim>\<open>allowed_pubkeys\<close> it returns without error and leaves the
  store, and so the stored reason, as it was. \<^verbatim>\<open>BanPubKey\<close> on a pubkey that is already in
  \<^verbatim>\<open>banned_pubkeys\<close> returns without error and stores the new reason. (Both provided the
  statement itself is executed by the engine.)
\<close>

theorem allow_keeps_reason_ban_replaces_reason:
  "AddAllowedPubkey fails s '''' reason = (Some InvalidArgument, s) \<and>
   (pubkey \<noteq> '''' \<and> allowed_pubkeys s pubkey = Some old \<and> \<not> fails 0 \<longrightarrow>
      AddAllowedPubkey fails s pubkey reason = (None, s) \<and>
      allowed_pubkeys (snd (AddAllowedPubkey fails s pubkey reason)) pubkey = Some old) \<and>
   (pubkey \<noteq> '''' \<and> banned_pubkeys s pubkey = Some old \<and> \<not> fails 0 \<longrightarrow>
      BanPubKey fails s pubkey reason =
        (None, s\<lparr>banned_pubkeys := (banned_pubkeys s)(pubkey \<mapsto> reason)\<rparr>) \<and>
      banned_pubkeys (snd (BanPubKey fails s pubkey reason)) pubkey = Some reason)"
  by (simp add: AddAllowedPubkey_def BanPubKey_def conn_defs sql_defs)

theorem allow_keeps_reason_ban_replaces_reason_witness:
  "allowed_pubkeys
     (snd (BanPubKey no_faults (snd (AddAllowedPubkey no_faults empty_store ''ab'' ''first''))
             ''ab'' ''first'')) ''ab'' = Some ''first'' \<and>
   banned_pubkeys
     (snd (BanPubKey no_faults (snd (AddAllowedPubkey no_faults empty_store ''ab'' ''first''))
             ''ab'' ''first'')) ''ab'' = Some ''first'' \<and>
   allowed_pubkeys
     (snd (AddAllowedPubkey no_faults
        (snd (BanPubKey no_faults (snd (AddAllowedPubkey no_faults empty_store ''ab'' ''first''))
                ''ab'' ''first'')) ''ab'' ''second'')) ''ab'' = Some ''first'' \<and>
   banned_pubkeys
     (snd (BanPubKey no_faults
        (snd (BanPubKey no_faults (snd (AddAllowedPubkey no_faults empty_store ''ab'' ''first''))
                ''ab'' ''first'')) ''ab'' ''second'')) ''ab'' = Some ''second''"
proof -
  let ?s = "snd (BanPubKey no_faults (snd (AddAllowedPubkey no_faults empty_store ''ab'' ''first''))
                   ''ab'' ''first'')"
  have a: "allowed_pubkeys ?s ''ab'' = Some ''first''"
    by (simp add: AddAllowedPubkey_def BanPubKey_def conn_defs sql_defs empty_store_def)
  have b: "banned_pubkeys ?s ''ab'' = Some ''first''"
    by (simp add: AddAllowedPubkey_def BanPubKey_def conn_defs sql_defs empty_store_def)
  have n: "''ab'' \<noteq> '''' \<and> \<not> no_faults 0" by (simp add: no_faults_def)
  note t = allow_keeps_reason_ban_replaces_reason
    [where fails = no_faults and s = ?s and pubkey = "''ab''" and old = "''first''"
       and reason = "''second''"]
  from t a n have c1:
    "allowed_pubkeys (snd (AddAllowedPubkey no_faults ?s ''ab'' ''second'')) ''ab'' = Some ''first''"
    by blast
  from t b n have c2:
    "banned_pubkeys (snd (BanPubKey no_faults ?s ''ab'' ''second'')) ''ab'' = Some ''second''"
    by blast
  from a b c1 c2 show ?thesis by simp
qed

text \<open>
  C6. \<^verbatim>\<open>RemoveAllowedPubkey\<close> with an empty pubkey fails with the empty-argument error; with
  a non-empty pubkey that has no row in \<^verbatim>\<open>allowed_pubkeys\<close> it fails with the not-found
  error and changes nothing; it returns without error exactly when the pubkey is non-empty,
  had a row, and neither the \<^verbatim>\<open>DELETE\<close> nor the reading of the row count failed, and then
  the row is gone.
\<close>

theorem RemoveAllowedPubkey_strict:
  "RemoveAllowedPubkey fails s '''' = (Some InvalidArgument, s) \<and>
   (pubkey \<noteq> '''' \<and> allowed_pubkeys s pubkey = None \<and> \<not> fails 0 \<and> \<not> fails 1 \<longrightarrow>
      RemoveAllowedPubkey fails s pubkey = (Some NotFound, s)) \<and>
   (fst (RemoveAllowedPubkey fails s pubkey) = None \<longleftrightarrow>
      pubkey \<noteq> '''' \<and> allowed_pubkeys s pubkey \<noteq> None \<and> \<not> fails 0 \<and> \<not> fails 1) \<and>
   (fst (RemoveAllowedPubkey fails s pubkey) = None \<longrightarrow>
      snd (RemoveAllowedPubkey fails s pubkey) =
        s\<lparr>allowed_pubkeys := (allowed_pubkeys s)(pubkey := None)\<rparr>)"
  by (auto simp: RemoveAllowedPubkey_def conn_defs sql_defs Let_def delete_absent_row
      split: option.splits)

theorem RemoveAllowedPubkey_strict_witness:
  "allowed_pubkeys empty_store ''never-added'' = None \<and>
   RemoveAllowedPubkey no_faults empty_store ''never-added'' = (Some NotFound, empty_store) \<and>
   allowed_pubkeys (snd (AddAllowedPubkey no_faults empty_store ''ab'' ''friend'')) ''ab''
     = Some ''friend'' \<and>
   RemoveAllowedPubkey no_faults (snd (AddAllowedPubkey no_faults empty_store ''ab'' ''friend''))
     ''ab'' = (None, empty_store)"
proof -
  let ?s = "snd (AddAllowedPubkey no_faults empty_store ''ab'' ''friend'')"
  have s: "?s = empty_store\<lparr>allowed_pubkeys := [''ab'' \<mapsto> ''friend'']\<rparr>"
    by (simp add: AddAllowedPubkey_def conn_defs sql_defs empty_store_def)
  have a: "allowed_pubkeys empty_store ''never-added'' = None" by (simp add: empty_store_def)
  have f: "\<not> no_faults 0 \<and> \<not> no_faults 1" by (simp add: no_faults_def)
  from RemoveAllowedPubkey_strict [of no_faults empty_store "''never-added''"] a f
  have c1: "RemoveAllowedPubkey no_faults empty_store ''never-added'' = (Some NotFound, empty_store)"
    by simp
  have b: "allowed_pubkeys ?s ''ab'' = Some ''friend''" by (simp add: s)
  note t = RemoveAllowedPubkey_strict [of no_faults ?s "''ab''"]
  from t b f have ok: "fst (RemoveAllowedPubkey no_faults ?s ''ab'') = None" by simp
  with t have r: "snd (RemoveAllowedPubkey no_faults ?s ''ab'') =
                 ?s\<lparr>allowed_pubkeys := (allowed_pubkeys ?s)(''ab'' := None)\<rparr>"
    by blast
  have "?s\<lparr>allowed_pubkeys := (allowed_pubkeys ?s)(''ab'' := None)\<rparr> = empty_store"
    by (simp add: AddAllowedPubkey_def conn_defs sql_defs empty_store_def)
  with r have "snd (RemoveAllowedPubkey no_faults ?s ''ab'') = empty_store"
    by (rule trans)
  with ok have c2: "RemoveAllowedPubkey no_faults ?s ''ab'' = (None, empty_store)"
    by (simp add: prod_eq_iff)
  from a c1 b c2 show ?thesis by simp
qed


subsection \<open>Blocked addresses\<close>

text \<open>
  C7. \<^verbatim>\<open>UnblockIP\<close> with a non-nil address whose \<^verbatim>\<open>DELETE\<close> is executed returns without
  error whether or not the address has a row in \<^verbatim>\<open>blocked_ips\<close>; when there is no row the
  store is unchanged. In every case the rows of all other addresses stay as they were.
\<close>

theorem UnblockIP_lenient:
  "(\<not> fails 0 \<longrightarrow>
      UnblockIP fails s (Some a) = (None, s\<lparr>blocked_ips := (blocked_ips s)(a := None)\<rparr>)) \<and>
   (\<not> fails 0 \<and> blocked_ips s a = None \<longrightarrow> UnblockIP fails s (Some a) = (None, s)) \<and>
   (\<forall>b. b \<noteq> a \<longrightarrow> blocked_ips (snd (UnblockIP fails s (Some a))) b = blocked_ips s b)"
  by (simp add: UnblockIP_def conn_defs sql_defs delete_absent_row)

theorem UnblockIP_lenient_witness:
  "blocked_ips (snd (BlockIP no_faults empty_store (Some ''203.0.113.5'') ''abuse''))
     ''203.0.113.9'' = None \<and>
   UnblockIP no_faults (snd (BlockIP no_faults empty_store (Some ''203.0.113.5'') ''abuse''))
     (Some ''203.0.113.9'')
     = (None, snd (BlockIP no_faults empty_store (Some ''203.0.113.5'') ''abuse'')) \<and>
   blocked_ips
     (snd (UnblockIP no_faults
             (snd (BlockIP no_faults empty_store (Some ''203.0.113.5'') ''abuse''))
             (Some ''203.0.113.9''))) ''203.0.113.5'' = Some ''abuse''"
proof -
  let ?s = "snd (BlockIP no_faults empty_store (Some ''203.0.113.5'') ''abuse'')"
  have a: "blocked_ips ?s ''203.0.113.9'' = None"
    by (simp add: BlockIP_def conn_defs sql_defs empty_store_def)
  have b: "blocked_ips ?s ''203.0.113.5'' = Some ''abuse''"
    by (simp add: BlockIP_def conn_defs sql_defs empty_store_def)
  have f: "\<not> no_faults 0" by (simp add: no_faults_def)
  have n: "''203.0.113.5'' \<noteq> ''203.0.113.9''" by simp
  note t = UnblockIP_lenient [of no_faults ?s "''203.0.113.9''"]
  from t have "\<not> no_faults 0 \<and> blocked_ips ?s ''203.0.113.9'' = None \<longrightarrow>
      UnblockIP no_faults ?s (Some ''203.0.113.9'') = (None, ?s)"
    by (rule conjunct2 [THEN conjunct1])
  moreover from f a have "\<not> no_faults 0 \<and> blocked_ips ?s ''203.0.113.9'' = None"
    by (intro conjI)
  ultimately have c1: "UnblockIP no_faults ?s (Some ''203.0.113.9'') = (None, ?s)"
    by (rule mp)
  from t have "\<forall>b. b \<noteq> ''203.0.113.9'' \<longrightarrow>
      blocked_ips (snd (UnblockIP no_faults ?s (Some ''203.0.113.9''))) b = blocked_ips ?s b"
    by (rule conjunct2 [THEN conjunct2])
  then have "''203.0.113.5'' \<noteq> ''203.0.113.9'' \<longrightarrow>
      blocked_ips (snd (UnblockIP no_faults ?s (Some ''203.0.113.9''))) ''203.0.113.5''
        = blocked_ips ?s ''203.0.113.5''"
    by (rule spec)
  from this n
  have "blocked_ips (snd (UnblockIP no_faults ?s (Some ''203.0.113.9''))) ''203.0.113.5''
          = blocked_ips ?s ''203.0.113.5''"
    by (rule mp)
  from this b
  have c2: "blocked_ips (snd (UnblockIP no_faults ?s (Some ''203.0.113.9''))) ''203.0.113.5''
              = Some ''abuse''"
    by (rule trans)
  from a c1 c2 show ?thesis by (intro conjI)
qed

subsection \<open>Administrative grants\<close>

text \<open>
  C4. The claim is that no row of \<^verbatim>\<open>admins\<close> ever has an empty method list.
  \<^verbatim>\<open>RevokeAdmin\<close> keeps it so (\<open>RevokeAdmin_keeps_grants_nonempty\<close>: it deletes the row
  when nothing is left), and so does \<^verbatim>\<open>GrantAdmin\<close> with a non-empty list, but
  \<^verbatim>\<open>GrantAdmin\<close> does not look at the length of \<^verbatim>\<open>methods\<close>: called with an empty list on
  the fresh store it returns without error and leaves a row whose method list is empty
  (\<open>GrantAdmin_empty_list_breaks_grants_nonempty\<close> for any store).
\<close>

theorem GrantAdmin_empty_methods_row:
  "admins empty_store ''ab'' = None \<and>
   fst (GrantAdmin no_faults empty_store ''ab'' []) = None \<and>
   admins (snd (GrantAdmin no_faults empty_store ''ab'' [])) ''ab'' = Some []"
  by (simp add: GrantAdmin_def conn_defs sql_defs empty_store_def)

text \<open>
  C8, as the claim states it, says that \<^verbatim>\<open>RevokeAdmin\<close> returns without error when there
  is no grant for the pubkey. For the empty pubkey there is no grant on the fresh store, yet
  the call returns the empty-argument error, with an empty and with a non-empty method list.
\<close>

theorem RevokeAdmin_empty_pubkey_fails:
  "admins empty_store '''' = None \<and>
   fst (RevokeAdmin (\<lambda>ks. ks) no_faults empty_store '''' []) \<noteq> None \<and>
   fst (RevokeAdmin (\<lambda>ks. ks) no_faults empty_store '''' [''banpubkey'']) \<noteq> None"
  by (simp add: RevokeAdmin_cases empty_store_def)

text \<open>
  C8, amended. With an empty pubkey \<^verbatim>\<open>RevokeAdmin\<close> returns the empty-argument error and
  changes nothing. With a non-empty pubkey and no fault of the connection: an empty method
  list deletes the row of the pubkey and nothing else; when the pubkey has no row the call,
  with an empty or a non-empty method list, returns without error and leaves the store
  unchanged (no row is created).
\<close>

theorem RevokeAdmin_behaviour:
  "(pubkey = '''' \<longrightarrow> RevokeAdmin ro fails s pubkey methods = (Some InvalidArgument, s)) \<and>
   (pubkey \<noteq> '''' \<and> methods = [] \<and> \<not> fails 0 \<longrightarrow>
      RevokeAdmin ro fails s pubkey methods = (None, s\<lparr>admins := (admins s)(pubkey := None)\<rparr>)) \<and>
   (pubkey \<noteq> '''' \<and> admins s pubkey = None \<and> \<not> fails 0 \<longrightarrow>
      RevokeAdmin ro fails s pubkey methods = (None, s))"
  by (simp add: RevokeAdmin_cases delete_absent_row)

theorem RevokeAdmin_behaviour_witness:
  "RevokeAdmin rev no_faults empty_store '''' [] = (Some InvalidArgument, empty_store) \<and>
   admins empty_store ''ab'' = None \<and>
   RevokeAdmin rev no_faults empty_store ''ab'' [] = (None, empty_store) \<and>
   RevokeAdmin rev no_faults empty_store ''ab'' [''banpubkey''] = (None, empty_store) \<and>
   admins (snd (GrantAdmin no_faults empty_store ''ab'' [''x'', ''y'', ''z''])) ''ab''
     = Some [''x'', ''y'', ''z''] \<and>
   RevokeAdmin rev no_faults
     (snd (GrantAdmin no_faults empty_store ''ab'' [''x'', ''y'', ''z''])) ''ab'' []
     = (None, empty_store)"
proof -
  let ?s = "snd (GrantAdmin no_faults empty_store ''ab'' [''x'', ''y'', ''z''])"
  have f: "\<not> no_faults 0" by (simp add: no_faults_def)
  have e: "admins empty_store ''ab'' = None" by (simp add: empty_store_def)
  have g: "admins ?s ''ab'' = Some [''x'', ''y'', ''z'']"
    by (simp add: GrantAdmin_def conn_defs sql_defs)
  from RevokeAdmin_behaviour [of "''''" rev no_faults empty_store "[]"]
  have c1: "RevokeAdmin rev no_faults empty_store '''' [] = (Some InvalidArgument, empty_store)"
    by simp
  from e f have h: "''ab'' \<noteq> '''' \<and> admins empty_store ''ab'' = None \<and> \<not> no_faults 0"
    by simp
  from RevokeAdmin_behaviour [of "''ab''" rev no_faults empty_store "[]"]
  have "''ab'' \<noteq> '''' \<and> admins empty_store ''ab'' = None \<and> \<not> no_faults 0 \<longrightarrow>
          RevokeAdmin rev no_faults empty_store ''ab'' [] = (None, empty_store)"
    by (rule conjunct2 [THEN conjunct2])
  from this h have c2: "RevokeAdmin rev no_faults empty_store ''ab'' [] = (None, empty_store)"
    by (rule mp)
  from RevokeAdmin_behaviour [of "''ab''" rev no_faults empty_store "[''banpubkey'']"]
  have "''ab'' \<noteq> '''' \<and> admins empty_store ''ab'' = None \<and> \<not> no_faults 0 \<longrightarrow>
          RevokeAdmin rev no_faults empty_store ''ab'' [''banpubkey''] = (None, empty_store)"
    by (rule conjunct2 [THEN conjunct2])
  from this h
  have c3: "RevokeAdmin rev no_faults empty_store ''ab'' [''banpubkey''] = (None, empty_store)"
    by (rule mp)
  from RevokeAdmin_behaviour [of "''ab''" rev no_faults ?s "[]"] f
  have "RevokeAdmin rev no_faults ?s ''ab'' [] =
          (None, ?s\<lparr>admins := (admins ?s)(''ab'' := None)\<rparr>)"
    by simp
  moreover have "?s\<lparr>admins := (admins ?s)(''ab'' := None)\<rparr> = empty_store"
    by (simp add: GrantAdmin_def conn_defs sql_defs empty_store_def)
  ultimately have c4: "RevokeAdmin rev no_faults ?s ''ab'' [] = (None, empty_store)"
    by simp
  from c1 e c2 c3 g c4 show ?thesis by (intro conjI)
qed

text \<open>
  C9. The claim is that after a successful \<^verbatim>\<open>GrantAdmin(pubkey, ms)\<close> a call of
  \<^verbatim>\<open>GetAdminMethods(pubkey)\<close> returns the methods of \<open>ms\<close>. \<^verbatim>\<open>GrantAdmin\<close> does store \<open>ms\<close>
  in the row of the pubkey, but \<^verbatim>\<open>GetAdminMethods\<close> scans the array column into a bare
  \<^verbatim>\<open>[]string\<close>: on the fresh store, after \<^verbatim>\<open>GrantAdmin\<close> of two methods, it returns no
  method and an error.
\<close>

theorem GetAdminMethods_after_GrantAdmin_errors:
  "fst (GrantAdmin no_faults empty_store ''ab'' [''a'', ''b'']) = None \<and>
   admins (snd (GrantAdmin no_faults empty_store ''ab'' [''a'', ''b''])) ''ab''
     = Some [''a'', ''b''] \<and>
   GetAdminMethods no_faults (snd (GrantAdmin no_faults empty_store ''ab'' [''a'', ''b''])) ''ab''
     = ([], Some UnsupportedScan)"
  by (simp add: GrantAdmin_def GetAdminMethods_def conn_defs sql_defs)

end
